theory Spec2Isabelle
  imports Complex_Main "HOL-Library.AList"
begin

section \<open>JavaScript values\<close>

text \<open>
  The values that reach \<^verbatim>\<open>server.js\<close> are those of a parsed JSON body, together with
  \<^verbatim>\<open>undefined\<close> (the value of a property that is not there). Numbers are the finite
  ones, each standing for the rational it denotes; \<^verbatim>\<open>NaN\<close> and the infinities are not
  modelled. A string is a sequence of code units, one \<open>char\<close> each. An object is the list of
  its own properties in the order they were created; a parsed object has no key twice.
\<close>

datatype jsval =
    JUndefined
  | JNull
  | JBool bool
  | JNum rat
  | JStr string
  | JArr "jsval list"
  | JObj "(string \<times> jsval) list"

text \<open>\<^verbatim>\<open>ToBoolean\<close>: what \<^verbatim>\<open>if (v)\<close>, \<^verbatim>\<open>!v\<close>, \<^verbatim>\<open>a || b\<close> and \<^verbatim>\<open>a && b\<close> test.\<close>

fun truthy :: "jsval \<Rightarrow> bool" where
  "truthy JUndefined = False"
| "truthy JNull = False"
| "truthy (JBool b) = b"
| "truthy (JNum q) = (q \<noteq> 0)"
| "truthy (JStr s) = (s \<noteq> [])"
| "truthy (JArr xs) = True"
| "truthy (JObj kvs) = True"

definition js_or :: "jsval \<Rightarrow> jsval \<Rightarrow> jsval" where
  "js_or a b = (if truthy a then a else b)"

text \<open>
  \<^verbatim>\<open>o.k\<close> for the property names the program reads (none of them is a built-in property
  of a string, an array, a number or a boolean, so only an object can have one), and
  \<^verbatim>\<open>o.k = v\<close> on an object: an existing property keeps its place, a new one goes last.
\<close>

fun get_prop :: "jsval \<Rightarrow> string \<Rightarrow> jsval" where
  "get_prop (JObj kvs) k = (case map_of kvs k of Some v \<Rightarrow> v | None \<Rightarrow> JUndefined)"
| "get_prop v k = JUndefined"

fun set_prop :: "jsval \<Rightarrow> string \<Rightarrow> jsval \<Rightarrow> jsval" where
  "set_prop (JObj kvs) k v = JObj (AList.update k v kvs)"
| "set_prop w k v = w"

subsection \<open>Property enumeration\<close>

definition is_digit :: "char \<Rightarrow> bool" where
  "is_digit c = (c \<in> set ''0123456789'')"

definition dec_value :: "string \<Rightarrow> int" where
  "dec_value k = foldl (\<lambda>n c. 10 * n + (of_char c - 48)) 0 k"

fun show_nat :: "nat \<Rightarrow> string" where
  "show_nat n =
     (if n < 10 then [''0123456789'' ! n]
      else show_nat (n div 10) @ [''0123456789'' ! (n mod 10)])"

declare show_nat.simps [simp del]

text \<open>
  An array index is a canonical decimal numeral below \<open>2\<^sup>3\<^sup>2 - 1\<close>. The own property keys
  of an object are enumerated with the array indices first, in ascending numeric order, and
  then the other string keys in the order of their creation. \<^verbatim>\<open>Object.entries\<close> and the
  spread \<^verbatim>\<open>{...o}\<close> both follow this order.
\<close>

definition is_array_index :: "string \<Rightarrow> bool" where
  "is_array_index k =
     (k \<noteq> [] \<and> list_all is_digit k \<and> (k = ''0'' \<or> hd k \<noteq> CHR ''0'')
      \<and> dec_value k < 4294967295)"

definition own_keys_order :: "(string \<times> 'a) list \<Rightarrow> (string \<times> 'a) list" where
  "own_keys_order kvs =
     sort_key (\<lambda>p. dec_value (fst p)) (filter (\<lambda>p. is_array_index (fst p)) kvs)
     @ filter (\<lambda>p. \<not> is_array_index (fst p)) kvs"

definition indexed :: "'a list \<Rightarrow> (string \<times> 'a) list" where
  "indexed xs = zip (map show_nat [0..<length xs]) xs"

fun own_entries :: "jsval \<Rightarrow> (string \<times> jsval) list" where
  "own_entries (JObj kvs) = own_keys_order kvs"
| "own_entries (JArr xs) = indexed xs"
| "own_entries (JStr s) = indexed (map (\<lambda>c. JStr [c]) s)"
| "own_entries v = []"

text \<open>\<^verbatim>\<open>{...src}\<close> copied into an object under construction, property by property.\<close>

definition spread_into :: "(string \<times> jsval) list \<Rightarrow> jsval \<Rightarrow> (string \<times> jsval) list" where
  "spread_into kvs src = fold (\<lambda>p acc. AList.update (fst p) (snd p) acc) (own_entries src) kvs"

subsection \<open>Conversion to string\<close>

fun join :: "string \<Rightarrow> string list \<Rightarrow> string" where
  "join sep [] = []"
| "join sep [x] = x"
| "join sep (x # y # ys) = x @ sep @ join sep (y # ys)"

text \<open>
  The exceptions of the program are \<^verbatim>\<open>TypeError\<close>s (the message is the engine's
  wording); \<^verbatim>\<open>String(err)\<close> of one is its name, a colon and the message.
\<close>

datatype js_error = TypeError string

fun String_error :: "js_error \<Rightarrow> string" where
  "String_error (TypeError msg) = ''TypeError: '' @ msg"

text \<open>
  \<^verbatim>\<open>String(v)\<close>. The decimal text of a number is the platform's \<^verbatim>\<open>Number::toString\<close>,
  taken as the parameter \<open>numstr\<close>. An array joins its elements with commas, \<^verbatim>\<open>null\<close>
  and \<^verbatim>\<open>undefined\<close> elements giving the empty string, the other elements converted in
  turn. An object is converted by the \<^verbatim>\<open>toString\<close> it finds: the inherited one gives
  \<^verbatim>\<open>[object Object]\<close>, but an own property \<^verbatim>\<open>toString\<close> hides it, and the value of a
  property of a parsed object is never a function, so that neither it nor the inherited
  \<^verbatim>\<open>valueOf\<close> (which returns the object) yields a primitive: the conversion throws.
\<close>

fun String_js :: "(rat \<Rightarrow> string) \<Rightarrow> jsval \<Rightarrow> js_error + string"
  and String_elems :: "(rat \<Rightarrow> string) \<Rightarrow> jsval list \<Rightarrow> js_error + string list"
where
  "String_js numstr JUndefined = Inr ''undefined''"
| "String_js numstr JNull = Inr ''null''"
| "String_js numstr (JBool b) = Inr (if b then ''true'' else ''false'')"
| "String_js numstr (JNum q) = Inr (numstr q)"
| "String_js numstr (JStr s) = Inr s"
| "String_js numstr (JArr xs) =
     (case String_elems numstr xs of
        Inl err \<Rightarrow> Inl err
      | Inr ss \<Rightarrow> Inr (join '','' ss))"
| "String_js numstr (JObj kvs) =
     (if ''toString'' \<in> set (map fst kvs)
      then Inl (TypeError ''Cannot convert object to primitive value'')
      else Inr ''[object Object]'')"
| "String_elems numstr [] = Inr []"
| "String_elems numstr (x # xs) =
     (case (if x = JUndefined \<or> x = JNull then Inr [] else String_js numstr x) of
        Inl err \<Rightarrow> Inl err
      | Inr s \<Rightarrow>
          (case String_elems numstr xs of
             Inl err \<Rightarrow> Inl err
           | Inr ss \<Rightarrow> Inr (s # ss)))"

text \<open>
  \<^verbatim>\<open>String.prototype.trim\<close>: white space and line terminators are removed at both ends
  (tab, line feed, vertical tab, form feed, carriage return, space, no-break space, for
  the code units a \<open>char\<close> can hold).
\<close>

definition is_space :: "char \<Rightarrow> bool" where
  "is_space c = (of_char c \<in> set [9, 10, 11, 12, 13, 32, 160 :: nat])"

definition trim :: "string \<Rightarrow> string" where
  "trim s = rev (dropWhile is_space (rev (dropWhile is_space s)))"

section \<open>The downstream endpoint and the clock\<close>

text \<open>
  What the program does to the outside is written to a trace: each call of
  \<^verbatim>\<open>fetch\<close> with the request it sends, and each \<^verbatim>\<open>sleep(ms)\<close>. A call of
  \<^verbatim>\<open>fetch\<close> followed by \<^verbatim>\<open>resp.text()\<close> either throws (a transport failure; the
  string is what \<^verbatim>\<open>String(e)\<close> gives) or yields a status and the response text. The
  endpoint is any function of the trace so far and of the request, so that a downstream whose
  answers change from call to call is covered.
\<close>

record request =
  url :: string
  headers :: "(string \<times> string) list"
  form :: "(string \<times> string) list"

datatype event = Fetch request | Sleep rat

datatype fetch_result = Threw string | Responded nat string

record platform =
  fetch :: "event list \<Rightarrow> request \<Rightarrow> fetch_result"
  JSON_parse :: "string \<Rightarrow> jsval option"
  Number_toString :: "rat \<Rightarrow> string"

definition sleep :: "rat \<Rightarrow> event list \<Rightarrow> event list" where
  "sleep ms tr = tr @ [Sleep ms]"

section \<open>Form Encoder\<close>

text \<open>
  \<^verbatim>\<open>toFormBody\<close> returns the \<^verbatim>\<open>URLSearchParams\<close> it has filled: the list of
  name-value pairs in the order of the \<^verbatim>\<open>append\<close> calls. Percent-encoding is done by the
  platform when \<^verbatim>\<open>fetch\<close> serialises that list, not by this function. When
  \<^verbatim>\<open>String(v)\<close> throws, the exception leaves the function and nothing is returned.
\<close>

fun toFormBody_loop ::
  "platform \<Rightarrow> (string \<times> jsval) list \<Rightarrow> (string \<times> string) list
   \<Rightarrow> js_error + (string \<times> string) list"
where
  "toFormBody_loop P [] sp = Inr sp"
| "toFormBody_loop P ((k, v) # es) sp =
     (if v = JUndefined \<or> v = JNull then toFormBody_loop P es sp
      else case String_js (Number_toString P) v of
             Inl err \<Rightarrow> Inl err
           | Inr s \<Rightarrow> toFormBody_loop P es (sp @ [(k, s)]))"

definition toFormBody :: "platform \<Rightarrow> jsval \<Rightarrow> js_error + (string \<times> string) list" where
  "toFormBody P obj = toFormBody_loop P (own_entries (js_or obj (JObj []))) []"

section \<open>Single-Request Sender\<close>

record outcome =
  status :: nat
  body :: jsval

definition outcome_entries :: "outcome \<Rightarrow> (string \<times> jsval) list" where
  "outcome_entries res = [(''status'', JNum (of_nat (status res))), (''body'', body res)]"

text \<open>
  The arguments of the \<^verbatim>\<open>fetch\<close> call: the headers, then the body. The body is
  evaluated before the call, so an exception of \<^verbatim>\<open>toFormBody\<close> means that
  \<^verbatim>\<open>fetch\<close> is not called at all.
\<close>

definition build_request ::
  "platform \<Rightarrow> string \<Rightarrow> jsval \<Rightarrow> string \<Rightarrow> js_error + request"
where
  "build_request P apiUrl formObj authHeader =
     (case toFormBody P formObj of
        Inl err \<Rightarrow> Inl err
      | Inr sp \<Rightarrow>
          Inr \<lparr>url = apiUrl,
               headers = [(''Content-Type'', ''application/x-www-form-urlencoded'')]
                         @ (if authHeader \<noteq> [] then [(''Authorization'', authHeader)] else []),
               form = sp\<rparr>)"

text \<open>
  \<open>Inl e\<close>: an exception leaves \<^verbatim>\<open>postOnce\<close>, and \<open>e\<close> is what \<^verbatim>\<open>String\<close> gives
  for it. It comes from \<^verbatim>\<open>toFormBody\<close>, with the trace unchanged, or from
  \<^verbatim>\<open>fetch\<close> and \<^verbatim>\<open>resp.text()\<close>, after the call was made.
\<close>

definition postOnce ::
  "platform \<Rightarrow> string \<Rightarrow> jsval \<Rightarrow> string \<Rightarrow> event list \<Rightarrow> (string + outcome) \<times> event list"
where
  "postOnce P apiUrl formObj authHeader tr =
     (case build_request P apiUrl formObj authHeader of
        Inl err \<Rightarrow> (Inl (String_error err), tr)
      | Inr req \<Rightarrow>
          (case fetch P tr req of
             Threw e \<Rightarrow> (Inl e, tr @ [Fetch req])
           | Responded st text \<Rightarrow>
               (Inr \<lparr>status = st,
                     body = (case JSON_parse P text of
                               Some json \<Rightarrow> json
                             | None \<Rightarrow> JObj [(''raw'', JStr text)])\<rparr>,
                tr @ [Fetch req])))"

section \<open>Retry Controller\<close>

text \<open>
  The loop of \<^verbatim>\<open>postWithRetry\<close> from a given \<open>attempt\<close> on, with the current
  \<^verbatim>\<open>last\<close> (written \<open>lastv\<close>; \<open>None\<close> is \<^verbatim>\<open>null\<close>). \<open>retries\<close> is any finite number, as
  \<^verbatim>\<open>Number.isFinite\<close> lets through: it may be negative or fractional.
\<close>

function postWithRetry_loop ::
  "platform \<Rightarrow> string \<Rightarrow> jsval \<Rightarrow> string \<Rightarrow> rat \<Rightarrow> rat \<Rightarrow> nat \<Rightarrow> outcome option \<Rightarrow> event list
   \<Rightarrow> jsval \<times> event list"
where
  "postWithRetry_loop P apiUrl formObj authHeader retries pauseMs attempt lastv tr =
     (if of_nat attempt \<le> retries then
        (case postOnce P apiUrl formObj authHeader tr of
           (Inr res, tr1) \<Rightarrow>
             if 200 \<le> status res \<and> status res < 300 then
               (JObj ([(''ok'', JBool True), (''attempt'', JNum (of_nat attempt))]
                      @ outcome_entries res), tr1)
             else
               postWithRetry_loop P apiUrl formObj authHeader retries pauseMs (attempt + 1)
                 (Some res) (if of_nat attempt < retries then sleep pauseMs tr1 else tr1)
         | (Inl e, tr1) \<Rightarrow>
             postWithRetry_loop P apiUrl formObj authHeader retries pauseMs (attempt + 1)
               (Some \<lparr>status = 0, body = JObj [(''error'', JStr e)]\<rparr>)
               (if of_nat attempt < retries then sleep pauseMs tr1 else tr1))
      else
        (JObj ((''ok'', JBool False)
               # (case lastv of None \<Rightarrow> [] | Some res \<Rightarrow> outcome_entries res)), tr))"
  by pat_completeness auto
termination
  by (relation "measure (\<lambda>(P, apiUrl, formObj, authHeader, retries, pauseMs, attempt, lastv, tr).
                  nat (\<lfloor>retries\<rfloor> + 1 - int attempt))")
     (auto simp: le_floor_iff)

declare postWithRetry_loop.simps [simp del]

definition postWithRetry ::
  "platform \<Rightarrow> string \<Rightarrow> jsval \<Rightarrow> string \<Rightarrow> rat \<Rightarrow> rat \<Rightarrow> event list \<Rightarrow> jsval \<times> event list"
where
  "postWithRetry P apiUrl formObj authHeader retries pauseMs tr =
     postWithRetry_loop P apiUrl formObj authHeader retries pauseMs 0 None tr"

section \<open>Request Validator and Normalizer\<close>

text \<open>
  The process-wide defaults, fixed at startup, and the two parts of the incoming request
  that the handler reads: the \<^verbatim>\<open>Authorization\<close> header (absent, or a string) and the
  parsed body (\<^verbatim>\<open>undefined\<close> when there is none). The two numeric defaults are finite:
  the \<^verbatim>\<open>NaN\<close> that \<^verbatim>\<open>parseInt\<close> gives for a setting that is not a number is not
  modelled.
\<close>

record config =
  DEFAULT_API_URL :: string
  DEFAULT_AUTH_HEADER :: string
  DEFAULT_MAX_RETRIES :: rat
  DEFAULT_PAUSE_MS :: rat

record http_request =
  authorization :: "string option"
  req_body :: jsval

record response =
  code :: nat
  json :: jsval

text \<open>
  Calling \<^verbatim>\<open>.trim()\<close> on a value that is not a string throws a \<^verbatim>\<open>TypeError\<close>. The
  handler's \<^verbatim>\<open>catch\<close> answers 500 with \<^verbatim>\<open>String(err)\<close>.
\<close>

definition internal_error :: "js_error \<Rightarrow> response" where
  "internal_error err = \<lparr>code = 500, json = JObj [(''error'', JStr (String_error err))]\<rparr>"

definition bad_request :: "string \<Rightarrow> response" where
  "bad_request msg = \<lparr>code = 400, json = JObj [(''error'', JStr msg)]\<rparr>"

text \<open>\<^verbatim>\<open>(req.body?.apiUrl || DEFAULT_API_URL).trim()\<close>\<close>

definition resolve_apiUrl :: "config \<Rightarrow> jsval \<Rightarrow> js_error + string" where
  "resolve_apiUrl cfg b =
     (case js_or (get_prop b ''apiUrl'') (JStr (DEFAULT_API_URL cfg)) of
        JStr s \<Rightarrow> Inr (trim s)
      | _ \<Rightarrow> Inl (TypeError ''(req.body?.apiUrl || DEFAULT_API_URL).trim is not a function''))"

text \<open>
  The two operands \<^verbatim>\<open>h && h.trim()\<close> of the authentication chain. A falsy outcome is
  written as the empty string: the \<^verbatim>\<open>||\<close> that receives it only tests it and moves on.
\<close>

definition header_auth :: "string option \<Rightarrow> string" where
  "header_auth h = (case h of None \<Rightarrow> [] | Some s \<Rightarrow> if s = [] then [] else trim s)"

definition body_auth :: "jsval \<Rightarrow> js_error + string" where
  "body_auth b =
     (let a = get_prop b ''authHeader'' in
      if \<not> truthy a then Inr []
      else case a of
             JStr s \<Rightarrow> Inr (trim s)
           | _ \<Rightarrow> Inl (TypeError ''req.body.authHeader.trim is not a function''))"

definition resolve_auth :: "config \<Rightarrow> http_request \<Rightarrow> js_error + string" where
  "resolve_auth cfg req =
     (if header_auth (authorization req) \<noteq> [] then Inr (header_auth (authorization req))
      else case body_auth (req_body req) of
             Inl err \<Rightarrow> Inl err
           | Inr a \<Rightarrow> if a \<noteq> [] then Inr a else Inr (DEFAULT_AUTH_HEADER cfg))"

text \<open>\<^verbatim>\<open>Number.isFinite(x) ? x : d\<close>: only a value of type number passes, without coercion.\<close>

definition finite_or :: "jsval \<Rightarrow> rat \<Rightarrow> rat" where
  "finite_or x d = (case x of JNum q \<Rightarrow> q | _ \<Rightarrow> d)"

definition normalize_is_web :: "jsval \<Rightarrow> jsval" where
  "normalize_is_web base =
     (if get_prop base ''is_web'' \<noteq> JUndefined then
        set_prop base ''is_web''
          (JStr (if get_prop base ''is_web''
                      \<in> set [JStr ''1'', JStr ''true'', JStr ''True'', JNum 1, JBool True]
                 then ''1'' else ''0''))
      else base)"

section \<open>Bulk Dispatcher\<close>

record dispatch_state =
  results :: "jsval list"
  success :: nat
  failed :: nat
  trace :: "event list"

text \<open>
  \<^verbatim>\<open>{ ...base, receipt_phone: phone }\<close>, then \<^verbatim>\<open>receipt_name\<close> when the name is truthy.
\<close>

definition build_payload :: "jsval \<Rightarrow> jsval \<Rightarrow> jsval \<Rightarrow> jsval" where
  "build_payload base name phone =
     (let payload = JObj (AList.update ''receipt_phone'' phone (spread_into [] base))
      in if truthy name then set_prop payload ''receipt_name'' name else payload)"

text \<open>\<^verbatim>\<open>xs[i]\<close> on an array: \<^verbatim>\<open>undefined\<close> beyond its end.\<close>

definition js_index :: "jsval list \<Rightarrow> nat \<Rightarrow> jsval" where
  "js_index xs i = (if i < length xs then xs ! i else JUndefined)"

text \<open>The body of the recipient loop at index \<open>idx\<close>.\<close>

definition send_one ::
  "platform \<Rightarrow> string \<Rightarrow> string \<Rightarrow> jsval \<Rightarrow> rat \<Rightarrow> rat \<Rightarrow> jsval list \<Rightarrow> nat \<Rightarrow> dispatch_state
   \<Rightarrow> dispatch_state"
where
  "send_one P apiUrl authHeader base maxRetries pauseMs recipients idx st =
     (let r = js_or (js_index recipients idx) (JObj []);
          name = js_or (get_prop r ''name'') (JStr []);
          phone = get_prop r ''phone''
      in
        if \<not> truthy phone then
          st\<lparr>results := results st @
                [JObj [(''index'', JNum (of_nat (idx + 1))), (''name'', name), (''phone'', phone),
                       (''ok'', JBool False), (''status'', JNum 400),
                       (''body'', JObj [(''error'', JStr ''Missing phone'')])]],
             failed := failed st + 1\<rparr>
        else
          let payload = build_payload base name phone;
              (out, tr1) = postWithRetry P apiUrl payload authHeader maxRetries pauseMs (trace st)
          in
            st\<lparr>results := results st @
                  [JObj [(''index'', JNum (of_nat (idx + 1))), (''name'', name), (''phone'', phone),
                         (''ok'', get_prop out ''ok''), (''status'', get_prop out ''status''),
                         (''body'', get_prop out ''body'')]],
               success := (if truthy (get_prop out ''ok'') then success st + 1 else success st),
               failed := (if truthy (get_prop out ''ok'') then failed st else failed st + 1),
               trace := sleep pauseMs tr1\<rparr>)"

function send_loop ::
  "platform \<Rightarrow> string \<Rightarrow> string \<Rightarrow> jsval \<Rightarrow> rat \<Rightarrow> rat \<Rightarrow> jsval list \<Rightarrow> nat \<Rightarrow> dispatch_state
   \<Rightarrow> dispatch_state"
where
  "send_loop P apiUrl authHeader base maxRetries pauseMs recipients idx st =
     (if idx < length recipients then
        send_loop P apiUrl authHeader base maxRetries pauseMs recipients (idx + 1)
          (send_one P apiUrl authHeader base maxRetries pauseMs recipients idx st)
      else st)"
  by pat_completeness auto
termination
  by (relation "measure (\<lambda>(P, apiUrl, authHeader, base, maxRetries, pauseMs, recipients, idx, st).
                  length recipients - idx)")
     auto

declare send_loop.simps [simp del]

text \<open>The handler of \<^verbatim>\<open>POST /send-bulk\<close>: the response and the trace it leaves.\<close>

definition send_bulk ::
  "platform \<Rightarrow> config \<Rightarrow> http_request \<Rightarrow> event list \<Rightarrow> response \<times> event list"
where
  "send_bulk P cfg req tr =
     (case resolve_apiUrl cfg (req_body req) of
        Inl err \<Rightarrow> (internal_error err, tr)
      | Inr apiUrl \<Rightarrow>
          (case resolve_auth cfg req of
             Inl err \<Rightarrow> (internal_error err, tr)
           | Inr authHeader \<Rightarrow>
               if authHeader = [] then
                 (bad_request
                    ''Missing auth (send 'Authorization' header or 'authHeader' in body)'', tr)
               else
                 let base = js_or (get_prop (req_body req) ''base'') (JObj []);
                     recipients = js_or (get_prop (req_body req) ''recipients'') (JArr []);
                     pauseMs = finite_or (get_prop (req_body req) ''pauseMs'') (DEFAULT_PAUSE_MS cfg);
                     maxRetries =
                       finite_or (get_prop (req_body req) ''maxRetries'') (DEFAULT_MAX_RETRIES cfg)
                 in
                   (case recipients of
                      JArr rs \<Rightarrow>
                        if rs = [] then
                          (bad_request ''recipients must be a non-empty array'', tr)
                        else
                          let st = send_loop P apiUrl authHeader (normalize_is_web base)
                                     maxRetries pauseMs rs 0
                                     \<lparr>results = [], success = 0, failed = 0, trace = tr\<rparr>
                          in
                            (\<lparr>code = 200,
                              json = JObj [(''summary'',
                                            JObj [(''total'', JNum (of_nat (length rs))),
                                                  (''success'', JNum (of_nat (success st))),
                                                  (''failed'', JNum (of_nat (failed st)))]),
                                           (''results'', JArr (results st))]\<rparr>,
                             trace st)
                    | _ \<Rightarrow> (bad_request ''recipients must be a non-empty array'', tr))))"

section \<open>Test doubles\<close>

text \<open>
  A downstream and a configuration to run the program on: the number of calls made so far,
  an endpoint that always answers with one status, one that refuses the first \<open>n\<close> calls
  and then answers 200. The response texts are not JSON, and the numbers printed are
  non-negative integers.
\<close>

definition fetches :: "event list \<Rightarrow> nat" where
  "fetches tr = length (filter (\<lambda>e. case e of Fetch req \<Rightarrow> True | Sleep ms \<Rightarrow> False) tr)"

definition mock_platform :: "(event list \<Rightarrow> request \<Rightarrow> fetch_result) \<Rightarrow> platform" where
  "mock_platform f =
     \<lparr>fetch = f, JSON_parse = (\<lambda>text. None), Number_toString = (\<lambda>q. show_nat (nat \<lfloor>q\<rfloor>))\<rparr>"

definition always_status :: "nat \<Rightarrow> event list \<Rightarrow> request \<Rightarrow> fetch_result" where
  "always_status st tr req = Responded st ''down''"

definition fail_then_ok :: "nat \<Rightarrow> event list \<Rightarrow> request \<Rightarrow> fetch_result" where
  "fail_then_ok n tr req =
     (if fetches tr < n then Threw ''Error: connect ECONNREFUSED'' else Responded 200 ''sent'')"

definition mock_config :: config where
  "mock_config =
     \<lparr>DEFAULT_API_URL = ''https://api-dev.jivebird.com/jbcards/v2/upload/jb/'',
      DEFAULT_AUTH_HEADER = [], DEFAULT_MAX_RETRIES = 2, DEFAULT_PAUSE_MS = 500\<rparr>"

definition empty_state :: dispatch_state where
  "empty_state = \<lparr>results = [], success = 0, failed = 0, trace = []\<rparr>"

section \<open>Runs of the retry loop\<close>

text \<open>
  To state what a run of \<^verbatim>\<open>postWithRetry\<close> looks like: whether an attempt, a call of
  \<^verbatim>\<open>postOnce\<close>, ends the loop (the test of line 52); what the loop keeps as
  \<^verbatim>\<open>last\<close> for an attempt that does not; the trace at which attempt \<open>j\<close> starts when
  no attempt before it has ended the loop, each of them being followed by the pause; and the
  trace that \<open>k\<close> calls of the downstream, each followed by the pause, leave behind.
\<close>

definition returned_2xx :: "string + outcome \<Rightarrow> bool" where
  "returned_2xx r = (case r of Inl e \<Rightarrow> False | Inr res \<Rightarrow> 200 \<le> status res \<and> status res < 300)"

definition kept_as_last :: "string + outcome \<Rightarrow> outcome" where
  "kept_as_last r =
     (case r of
        Inl e \<Rightarrow> \<lparr>status = 0, body = JObj [(''error'', JStr e)]\<rparr>
      | Inr res \<Rightarrow> res)"

fun attempt_history ::
  "platform \<Rightarrow> string \<Rightarrow> jsval \<Rightarrow> string \<Rightarrow> rat \<Rightarrow> event list \<Rightarrow> nat \<Rightarrow> event list"
where
  "attempt_history P apiUrl formObj authHeader pauseMs tr 0 = tr"
| "attempt_history P apiUrl formObj authHeader pauseMs tr (Suc j) =
     attempt_history P apiUrl formObj authHeader pauseMs
       (snd (postOnce P apiUrl formObj authHeader tr) @ [Sleep pauseMs]) j"

definition failed_attempts :: "request \<Rightarrow> rat \<Rightarrow> nat \<Rightarrow> event list" where
  "failed_attempts req pauseMs k = concat (replicate k [Fetch req, Sleep pauseMs])"

section \<open>The recipient loop, one recipient at a time\<close>

lemma js_index_in:
  "i < length xs \<Longrightarrow> js_index xs i = xs ! i"
  by (simp add: js_index_def)

lemma send_one_missing_phone:
  assumes "idx < length recipients"
    and "\<not> truthy (get_prop (js_or (recipients ! idx) (JObj [])) ''phone'')"
  shows "send_one P apiUrl authHeader base maxRetries pauseMs recipients idx st =
         st\<lparr>results := results st @
               [JObj [(''index'', JNum (of_nat (idx + 1))),
                      (''name'', js_or (get_prop (js_or (recipients ! idx) (JObj [])) ''name'')
                                   (JStr [])),
                      (''phone'', get_prop (js_or (recipients ! idx) (JObj [])) ''phone''),
                      (''ok'', JBool False), (''status'', JNum 400),
                      (''body'', JObj [(''error'', JStr ''Missing phone'')])]],
            failed := failed st + 1\<rparr>"
  using assms by (simp add: send_one_def Let_def js_index_in)

lemma send_one_with_phone:
  assumes "idx < length recipients"
    and "truthy (get_prop (js_or (recipients ! idx) (JObj [])) ''phone'')"
    and "postWithRetry P apiUrl
           (build_payload base
              (js_or (get_prop (js_or (recipients ! idx) (JObj [])) ''name'') (JStr []))
              (get_prop (js_or (recipients ! idx) (JObj [])) ''phone''))
           authHeader maxRetries pauseMs (trace st) = (out, tr1)"
  shows "send_one P apiUrl authHeader base maxRetries pauseMs recipients idx st =
         st\<lparr>results := results st @
               [JObj [(''index'', JNum (of_nat (idx + 1))),
                      (''name'', js_or (get_prop (js_or (recipients ! idx) (JObj [])) ''name'')
                                   (JStr [])),
                      (''phone'', get_prop (js_or (recipients ! idx) (JObj [])) ''phone''),
                      (''ok'', get_prop out ''ok''), (''status'', get_prop out ''status''),
                      (''body'', get_prop out ''body'')]],
            success := (if truthy (get_prop out ''ok'') then success st + 1 else success st),
            failed := (if truthy (get_prop out ''ok'') then failed st else failed st + 1),
            trace := tr1 @ [Sleep pauseMs]\<rparr>"
  using assms by (simp add: send_one_def Let_def sleep_def js_index_in)

text \<open>
  \<^bold>\<open>C5.\<close> A recipient whose \<^verbatim>\<open>phone\<close> is missing or empty (any falsy value, the
  recipient itself being replaced by \<^verbatim>\<open>{}\<close> when it is falsy) gets one result with
  \<^verbatim>\<open>ok: false\<close>, \<^verbatim>\<open>status: 400\<close> and \<^verbatim>\<open>body: {error: "Missing phone"}\<close>; the
  failed count goes up by one, the success count stays, and the trace is unchanged: no
  request is sent and nothing sleeps for that recipient.
\<close>

theorem missing_phone_recorded:
  assumes "idx < length recipients"
    and "\<not> truthy (get_prop (js_or (recipients ! idx) (JObj [])) ''phone'')"
  shows "\<exists>res. results (send_one P apiUrl authHeader base maxRetries pauseMs recipients idx st)
               = results st @ [res]
           \<and> get_prop res ''ok'' = JBool False
           \<and> get_prop res ''status'' = JNum 400
           \<and> get_prop res ''body'' = JObj [(''error'', JStr ''Missing phone'')]
           \<and> failed (send_one P apiUrl authHeader base maxRetries pauseMs recipients idx st)
               = failed st + 1
           \<and> success (send_one P apiUrl authHeader base maxRetries pauseMs recipients idx st)
               = success st
           \<and> trace (send_one P apiUrl authHeader base maxRetries pauseMs recipients idx st)
               = trace st"
  by (simp add: send_one_missing_phone [OF assms])

theorem missing_phone_recorded_witness:
  "\<exists>res. results (send_one (mock_platform (always_status 200)) ''u'' ''Token t'' (JObj []) 2 500
                     [JObj [(''name'', JStr ''Bob''), (''phone'', JStr [])]] 0 empty_state)
            = results empty_state @ [res]
        \<and> get_prop res ''ok'' = JBool False
        \<and> get_prop res ''status'' = JNum 400
        \<and> get_prop res ''body'' = JObj [(''error'', JStr ''Missing phone'')]
        \<and> failed (send_one (mock_platform (always_status 200)) ''u'' ''Token t'' (JObj []) 2 500
                     [JObj [(''name'', JStr ''Bob''), (''phone'', JStr [])]] 0 empty_state)
            = failed empty_state + 1
        \<and> success (send_one (mock_platform (always_status 200)) ''u'' ''Token t'' (JObj []) 2 500
                     [JObj [(''name'', JStr ''Bob''), (''phone'', JStr [])]] 0 empty_state)
            = success empty_state
        \<and> trace (send_one (mock_platform (always_status 200)) ''u'' ''Token t'' (JObj []) 2 500
                     [JObj [(''name'', JStr ''Bob''), (''phone'', JStr [])]] 0 empty_state)
            = trace empty_state"
  using missing_phone_recorded
          [of 0 "[JObj [(''name'', JStr ''Bob''), (''phone'', JStr [])]]"
              "mock_platform (always_status 200)" "''u''" "''Token t''" "JObj []" 2 500
              empty_state]
  by (simp add: js_or_def)

lemma get_prop_falsy:
  "\<not> truthy x \<Longrightarrow> get_prop x k = JUndefined"
  by (cases x) simp_all

lemma get_prop_coerced:
  "get_prop (js_or x (JObj [])) k = get_prop x k"
  by (simp add: js_or_def get_prop_falsy)

text \<open>
  \<^bold>\<open>C1, as the code has it.\<close> The pacing sleep is the last statement of the loop body, and
  the missing-phone branch leaves the body with \<^verbatim>\<open>continue\<close> before reaching it. So a
  recipient with a truthy phone is followed by \<^verbatim>\<open>sleep(pauseMs)\<close>, right after the trace
  of its \<^verbatim>\<open>postWithRetry\<close> call, and a recipient whose phone is missing or empty adds
  nothing to the trace: no sleep follows it.
\<close>

theorem pacing_after_send:
  assumes "idx < length recipients"
  shows "trace (send_one P apiUrl authHeader base maxRetries pauseMs recipients idx st) =
         (if truthy (get_prop (recipients ! idx) ''phone'') then
            snd (postWithRetry P apiUrl
                   (build_payload base (js_or (get_prop (recipients ! idx) ''name'') (JStr []))
                      (get_prop (recipients ! idx) ''phone''))
                   authHeader maxRetries pauseMs (trace st))
            @ [Sleep pauseMs]
          else trace st)"
  using assms
  by (simp add: send_one_def Let_def sleep_def get_prop_coerced js_index_in split: prod.splits)

theorem pacing_after_send_witness:
  "trace (send_one (mock_platform (always_status 200)) ''u'' ''Token t'' (JObj []) 0 500
            [JObj [(''phone'', JStr ''A'')], JObj [(''phone'', JStr [])]] 0 empty_state)
     = [Fetch \<lparr>url = ''u'',
               headers = [(''Content-Type'', ''application/x-www-form-urlencoded''),
                          (''Authorization'', ''Token t'')],
               form = [(''receipt_phone'', ''A'')]\<rparr>,
        Sleep 500]
   \<and> trace (send_one (mock_platform (always_status 200)) ''u'' ''Token t'' (JObj []) 0 500
            [JObj [(''phone'', JStr ''A'')], JObj [(''phone'', JStr [])]] 1 empty_state)
     = trace empty_state"
  using pacing_after_send
          [of 0 "[JObj [(''phone'', JStr ''A'')], JObj [(''phone'', JStr [])]]"
              "mock_platform (always_status 200)" "''u''" "''Token t''" "JObj []" 0 500
              empty_state]
        pacing_after_send
          [of 1 "[JObj [(''phone'', JStr ''A'')], JObj [(''phone'', JStr [])]]"
              "mock_platform (always_status 200)" "''u''" "''Token t''" "JObj []" 0 500
              empty_state]
  by (simp add: postWithRetry_def postWithRetry_loop.simps postOnce_def build_request_def
        build_payload_def spread_into_def toFormBody_def js_or_def own_keys_order_def
        is_array_index_def is_digit_def mock_platform_def always_status_def empty_state_def
        outcome_entries_def)

text \<open>
  The claim as the specification states it, a sleep after every recipient, the missing-phone
  case included, fails on a batch whose only recipient has an empty phone: the handler answers
  200 with that recipient's result, and the trace stays empty.
\<close>

theorem pacing_every_recipient_counterexample:
  "code (fst (send_bulk (mock_platform (always_status 200)) mock_config
               \<lparr>authorization = Some ''Token t'',
                req_body = JObj [(''recipients'', JArr [JObj [(''phone'', JStr [])]])]\<rparr> []))
     = 200
   \<and> snd (send_bulk (mock_platform (always_status 200)) mock_config
               \<lparr>authorization = Some ''Token t'',
                req_body = JObj [(''recipients'', JArr [JObj [(''phone'', JStr [])]])]\<rparr> [])
     = []"
  by (simp add: send_bulk_def resolve_apiUrl_def resolve_auth_def header_auth_def trim_def
        is_space_def js_or_def mock_config_def finite_or_def normalize_is_web_def
        send_loop.simps send_one_def js_index_def Let_def)

lemma send_loop_done:
  "length recipients \<le> idx \<Longrightarrow>
   send_loop P apiUrl authHeader base maxRetries pauseMs recipients idx st = st"
  by (subst send_loop.simps) simp

lemma send_loop_step:
  "idx < length recipients \<Longrightarrow>
   send_loop P apiUrl authHeader base maxRetries pauseMs recipients idx st =
   send_loop P apiUrl authHeader base maxRetries pauseMs recipients (Suc idx)
     (send_one P apiUrl authHeader base maxRetries pauseMs recipients idx st)"
  by (subst send_loop.simps) simp




text \<open>
  \<^bold>\<open>C9.\<close> With a negative \<open>retries\<close> the loop condition \<^verbatim>\<open>0 <= retries\<close> is false at
  once: \<^verbatim>\<open>postWithRetry\<close> returns \<^verbatim>\<open>{ok: false, ...null}\<close>, an object whose only
  property is \<^verbatim>\<open>ok\<close> (its \<^verbatim>\<open>status\<close> and \<^verbatim>\<open>body\<close> read as \<^verbatim>\<open>undefined\<close>), and the
  trace is unchanged: no request is sent and nothing sleeps. Such a value reaches the
  function, since a negative \<^verbatim>\<open>maxRetries\<close> of the body passes \<^verbatim>\<open>Number.isFinite\<close>.
\<close>

theorem negative_retries_no_attempt:
  assumes "retries < 0"
  shows "postWithRetry P apiUrl formObj authHeader retries pauseMs tr
           = (JObj [(''ok'', JBool False)], tr)
       \<and> get_prop (fst (postWithRetry P apiUrl formObj authHeader retries pauseMs tr)) ''status''
           = JUndefined
       \<and> get_prop (fst (postWithRetry P apiUrl formObj authHeader retries pauseMs tr)) ''body''
           = JUndefined
       \<and> finite_or (JNum retries) d = retries"
  using assms
  by (simp add: postWithRetry_def postWithRetry_loop.simps finite_or_def)

theorem negative_retries_no_attempt_witness:
  "postWithRetry (mock_platform (always_status 200)) ''u'' (JObj [(''receipt_phone'', JStr ''A'')])
     ''Token t'' (- 1) 500 []
     = (JObj [(''ok'', JBool False)], [])
   \<and> finite_or (JNum (- 1)) 2 = - 1"
  using negative_retries_no_attempt
          [of "- 1" "mock_platform (always_status 200)" "''u''"
              "JObj [(''receipt_phone'', JStr ''A'')]" "''Token t''" 500 "[]" 2]
  by simp

section \<open>The report of a batch\<close>

lemma send_one_pushes:
  assumes "idx < length recipients"
  shows "\<exists>x. results (send_one P apiUrl authHeader base maxRetries pauseMs recipients idx st)
          = results st @ [x]
       \<and> get_prop x ''index'' = JNum (of_nat (idx + 1))
       \<and> get_prop x ''phone'' = get_prop (recipients ! idx) ''phone''"
  using assms
  by (simp add: send_one_def Let_def get_prop_coerced js_index_in split: prod.splits)

lemma send_one_counts:
  "success (send_one P apiUrl authHeader base maxRetries pauseMs recipients idx st)
   + failed (send_one P apiUrl authHeader base maxRetries pauseMs recipients idx st)
   = success st + failed st + 1"
  by (simp add: send_one_def Let_def split: prod.splits)

lemma send_loop_report:
  "\<exists>ys. results (send_loop P apiUrl authHeader base maxRetries pauseMs recipients idx st)
           = results st @ ys
        \<and> length ys = length recipients - idx
        \<and> (\<forall>j<length ys. get_prop (ys ! j) ''index'' = JNum (of_nat (idx + j + 1))
                          \<and> get_prop (ys ! j) ''phone'' = get_prop (recipients ! (idx + j)) ''phone'')
        \<and> success (send_loop P apiUrl authHeader base maxRetries pauseMs recipients idx st)
          + failed (send_loop P apiUrl authHeader base maxRetries pauseMs recipients idx st)
          = success st + failed st + (length recipients - idx)"
proof (induction P apiUrl authHeader base maxRetries pauseMs recipients idx st
       rule: send_loop.induct)
  case (1 P apiUrl authHeader base maxRetries pauseMs recipients idx st)
  show ?case
  proof (cases "idx < length recipients")
    case False
    then show ?thesis by (simp add: send_loop_done)
  next
    case True
    let ?st1 = "send_one P apiUrl authHeader base maxRetries pauseMs recipients idx st"
    let ?fin = "send_loop P apiUrl authHeader base maxRetries pauseMs recipients (idx + 1) ?st1"
    from "1.IH" [OF True] obtain ys where
      ys: "results ?fin = results ?st1 @ ys"
          "length ys = length recipients - (idx + 1)"
          "\<forall>j<length ys. get_prop (ys ! j) ''index'' = JNum (of_nat (idx + 1 + j + 1))
                          \<and> get_prop (ys ! j) ''phone'' = get_prop (recipients ! (idx + 1 + j)) ''phone''"
          "success ?fin + failed ?fin = success ?st1 + failed ?st1 + (length recipients - (idx + 1))"
      by blast
    from send_one_pushes [OF True, of P apiUrl authHeader base maxRetries pauseMs st]
    obtain x where
      x: "results ?st1 = results st @ [x]"
         "get_prop x ''index'' = JNum (of_nat (idx + 1))"
         "get_prop x ''phone'' = get_prop (recipients ! idx) ''phone''"
      by blast
    have step: "send_loop P apiUrl authHeader base maxRetries pauseMs recipients idx st = ?fin"
      using True by (simp add: send_loop_step)
    have a: "results ?fin = results st @ (x # ys)"
      using ys(1) x(1) by simp
    have b: "length (x # ys) = length recipients - idx"
      using ys(2) True by simp
    have c: "\<forall>j<length (x # ys). get_prop ((x # ys) ! j) ''index'' = JNum (of_nat (idx + j + 1))
                          \<and> get_prop ((x # ys) ! j) ''phone'' = get_prop (recipients ! (idx + j)) ''phone''"
    proof (intro allI impI)
      fix j assume "j < length (x # ys)"
      then show "get_prop ((x # ys) ! j) ''index'' = JNum (of_nat (idx + j + 1))
                          \<and> get_prop ((x # ys) ! j) ''phone'' = get_prop (recipients ! (idx + j)) ''phone''"
        using x(2,3) ys(3) by (cases j) simp_all
    qed
    have d: "success ?fin + failed ?fin = success st + failed st + (length recipients - idx)"
      using ys(4) send_one_counts [of P apiUrl authHeader base maxRetries pauseMs recipients idx st] True
      by simp
    show ?thesis
      unfolding step using a b c d by blast
  qed
qed

text \<open>
  The target URL resolves when the body's \<^verbatim>\<open>apiUrl\<close> is absent, falsy or a string; any
  other value has no \<^verbatim>\<open>trim\<close>, and line 84 throws.
\<close>

lemma resolve_apiUrl_resolves:
  assumes "\<not> truthy (get_prop b ''apiUrl'') \<or> (\<exists>s. get_prop b ''apiUrl'' = JStr s)"
  shows "\<exists>apiUrl. resolve_apiUrl cfg b = Inr apiUrl"
  using assms by (auto simp: resolve_apiUrl_def js_or_def)

lemma resolve_apiUrl_throws:
  assumes "truthy (get_prop b ''apiUrl'')" and "\<forall>s. get_prop b ''apiUrl'' \<noteq> JStr s"
  shows "resolve_apiUrl cfg b
         = Inl (TypeError ''(req.body?.apiUrl || DEFAULT_API_URL).trim is not a function'')"
  using assms by (cases "get_prop b ''apiUrl''") (simp_all add: resolve_apiUrl_def js_or_def)

text \<open>
  \<^bold>\<open>C2, as the code has it.\<close> Let the target URL resolve (the body's \<^verbatim>\<open>apiUrl\<close> is
  absent, falsy or a string), let the authentication resolve to a non-empty string, and let
  \<^verbatim>\<open>recipients\<close> be a non-empty array. The handler then answers 200 with a summary and a
  result list such that: there are as many results as recipients, \<^verbatim>\<open>total\<close> is the
  number of recipients, \<^verbatim>\<open>success + failed\<close> is that number too, and the result at
  position \<open>i\<close> (from 0) has \<^verbatim>\<open>index\<close> \<open>i + 1\<close> and the \<^verbatim>\<open>phone\<close> of the
  recipient at position \<open>i\<close>.
\<close>

theorem bulk_report_invariants:
  assumes "\<not> truthy (get_prop (req_body req) ''apiUrl'')
           \<or> (\<exists>s. get_prop (req_body req) ''apiUrl'' = JStr s)"
    and "resolve_auth cfg req = Inr authHeader"
    and "authHeader \<noteq> []"
    and "get_prop (req_body req) ''recipients'' = JArr rs"
    and "rs \<noteq> []"
  shows "\<exists>res s f.
           fst (send_bulk P cfg req tr)
             = \<lparr>code = 200,
                json = JObj [(''summary'', JObj [(''total'', JNum (of_nat (length rs))),
                                                 (''success'', JNum (of_nat s)),
                                                 (''failed'', JNum (of_nat f))]),
                             (''results'', JArr res)]\<rparr>
         \<and> length res = length rs
         \<and> s + f = length rs
         \<and> (\<forall>i<length rs. get_prop (res ! i) ''index'' = JNum (of_nat (i + 1))
                            \<and> get_prop (res ! i) ''phone'' = get_prop (rs ! i) ''phone'')"
proof -
  from resolve_apiUrl_resolves [OF assms(1)] obtain apiUrl where
    url: "resolve_apiUrl cfg (req_body req) = Inr apiUrl"
    by blast
  let ?base = "normalize_is_web (js_or (get_prop (req_body req) ''base'') (JObj []))"
  let ?pause = "finite_or (get_prop (req_body req) ''pauseMs'') (DEFAULT_PAUSE_MS cfg)"
  let ?retries = "finite_or (get_prop (req_body req) ''maxRetries'') (DEFAULT_MAX_RETRIES cfg)"
  let ?st0 = "\<lparr>results = [], success = 0, failed = 0, trace = tr\<rparr>"
  let ?fin = "send_loop P apiUrl authHeader ?base ?retries ?pause rs 0 ?st0"
  have resp: "fst (send_bulk P cfg req tr)
             = \<lparr>code = 200,
                json = JObj [(''summary'', JObj [(''total'', JNum (of_nat (length rs))),
                                                 (''success'', JNum (of_nat (success ?fin))),
                                                 (''failed'', JNum (of_nat (failed ?fin)))]),
                             (''results'', JArr (results ?fin))]\<rparr>"
    using url assms(2-) by (simp add: send_bulk_def js_or_def Let_def)
  from send_loop_report [of P apiUrl authHeader ?base ?retries ?pause rs 0 ?st0]
  obtain ys where
    ys: "results ?fin = ys" "length ys = length rs"
        "\<forall>j<length ys. get_prop (ys ! j) ''index'' = JNum (of_nat (j + 1))
                        \<and> get_prop (ys ! j) ''phone'' = get_prop (rs ! j) ''phone''"
        "success ?fin + failed ?fin = length rs"
    by auto
  show ?thesis
    using resp ys by auto
qed

theorem bulk_report_invariants_witness:
  "\<exists>res s f.
     fst (send_bulk (mock_platform (always_status 200)) mock_config
            \<lparr>authorization = Some ''Token t'',
             req_body = JObj [(''recipients'',
                        JArr [JObj [(''phone'', JStr ''A'')], JObj [(''phone'', JStr [])],
                              JObj [(''phone'', JStr ''C'')]])]\<rparr> [])
       = \<lparr>code = 200,
          json = JObj [(''summary'', JObj [(''total'', JNum 3),
                                           (''success'', JNum (of_nat s)),
                                           (''failed'', JNum (of_nat f))]),
                       (''results'', JArr res)]\<rparr>
     \<and> length res = 3
     \<and> s + f = 3
     \<and> (\<forall>i<3. get_prop (res ! i) ''index'' = JNum (of_nat (i + 1))
               \<and> get_prop (res ! i) ''phone''
                   = get_prop ([JObj [(''phone'', JStr ''A'')], JObj [(''phone'', JStr [])],
                                JObj [(''phone'', JStr ''C'')]] ! i) ''phone'')"
  using bulk_report_invariants
          [of "\<lparr>authorization = Some ''Token t'',
                req_body = JObj [(''recipients'',
                        JArr [JObj [(''phone'', JStr ''A'')], JObj [(''phone'', JStr [])],
                              JObj [(''phone'', JStr ''C'')]])]\<rparr>"
              mock_config "''Token t''"
              "[JObj [(''phone'', JStr ''A'')], JObj [(''phone'', JStr [])],
                JObj [(''phone'', JStr ''C'')]]"
              "mock_platform (always_status 200)" "[]"]
  by (simp add: resolve_auth_def header_auth_def trim_def is_space_def
        js_or_def mock_config_def numeral_3_eq_3)

text \<open>
  The claim as stated asks only for a resolvable authentication and a non-empty array of
  recipients. A request that has both, and the number 5 as \<^verbatim>\<open>apiUrl\<close>, is answered with
  500 and an error, without summary or results, and nothing is sent.
\<close>

theorem bulk_report_counterexample:
  "send_bulk (mock_platform (always_status 200)) mock_config
     \<lparr>authorization = Some ''Token t'',
      req_body = JObj [(''apiUrl'', JNum 5),
                       (''recipients'', JArr [JObj [(''phone'', JStr ''A'')]])]\<rparr> []
   = (\<lparr>code = 500,
       json = JObj [(''error'',
                     JStr (''TypeError: ''
                           @ ''(req.body?.apiUrl || DEFAULT_API_URL).trim is not a function''))]\<rparr>,
      [])
   \<and> resolve_auth mock_config
       \<lparr>authorization = Some ''Token t'',
        req_body = JObj [(''apiUrl'', JNum 5),
                         (''recipients'', JArr [JObj [(''phone'', JStr ''A'')]])]\<rparr>
     = Inr ''Token t''"
  by (simp add: send_bulk_def resolve_apiUrl_def resolve_auth_def header_auth_def js_or_def
        internal_error_def trim_def is_space_def)

section \<open>Normalisation of the web flag\<close>

text \<open>
  \<^bold>\<open>C7.\<close> When \<^verbatim>\<open>base.is_web\<close> is present (not \<^verbatim>\<open>undefined\<close>), it becomes the
  string \<^verbatim>\<open>"1"\<close> exactly when its value is one of \<^verbatim>\<open>"1"\<close>, \<^verbatim>\<open>"true"\<close>,
  \<^verbatim>\<open>"True"\<close>, \<^verbatim>\<open>1\<close>, \<^verbatim>\<open>true\<close>, and \<^verbatim>\<open>"0"\<close> otherwise; this happens in place:
  the other properties keep their values and the keys their order. When it is absent,
  \<^verbatim>\<open>base\<close> is left as it is and no \<^verbatim>\<open>is_web\<close> appears.
\<close>

theorem is_web_normalized:
  "(get_prop base ''is_web'' \<noteq> JUndefined \<longrightarrow>
      get_prop (normalize_is_web base) ''is_web''
        = JStr (if get_prop base ''is_web''
                    \<in> {JStr ''1'', JStr ''true'', JStr ''True'', JNum 1, JBool True}
                then ''1'' else ''0'')
      \<and> (\<forall>k. k \<noteq> ''is_web'' \<longrightarrow> get_prop (normalize_is_web base) k = get_prop base k)
      \<and> (\<exists>kvs kvs'. base = JObj kvs \<and> normalize_is_web base = JObj kvs'
            \<and> map fst kvs' = map fst kvs))
   \<and> (get_prop base ''is_web'' = JUndefined \<longrightarrow> normalize_is_web base = base)"
proof (cases base)
  case (JObj kvs)
  show ?thesis
  proof (cases "map_of kvs ''is_web''")
    case None
    then show ?thesis using JObj by (simp add: normalize_is_web_def)
  next
    case (Some v)
    then have "(''is_web'', v) \<in> set kvs"
      by (rule map_of_SomeD)
    then have "''is_web'' \<in> fst ` set kvs"
      by force
    then show ?thesis using JObj Some
      by (simp add: normalize_is_web_def update_conv' update_keys)
  qed
qed (simp_all add: normalize_is_web_def)

theorem is_web_normalized_witness:
  "get_prop (normalize_is_web (JObj [(''song_id'', JStr ''94''), (''is_web'', JBool True),
                                     (''message'', JStr ''hi'')])) ''is_web'' = JStr ''1''
   \<and> get_prop (normalize_is_web (JObj [(''song_id'', JStr ''94''), (''is_web'', JStr ''yes''),
                                     (''message'', JStr ''hi'')])) ''is_web'' = JStr ''0''
   \<and> normalize_is_web (JObj [(''song_id'', JStr ''94'')]) = JObj [(''song_id'', JStr ''94'')]"
  using is_web_normalized [of "JObj [(''song_id'', JStr ''94''), (''is_web'', JBool True),
                                     (''message'', JStr ''hi'')]"]
    is_web_normalized [of "JObj [(''song_id'', JStr ''94''), (''is_web'', JStr ''yes''),
                                 (''message'', JStr ''hi'')]"]
    is_web_normalized [of "JObj [(''song_id'', JStr ''94'')]"]
  by simp

section \<open>The form body\<close>












section \<open>The retry loop\<close>

lemma postOnce_built:
  assumes "build_request P apiUrl formObj authHeader = Inr req"
  shows "snd (postOnce P apiUrl formObj authHeader tr) = tr @ [Fetch req]"
    and "fst (postOnce P apiUrl formObj authHeader tr) =
         (case fetch P tr req of
            Threw e \<Rightarrow> Inl e
          | Responded st rsp \<Rightarrow>
              Inr \<lparr>status = st,
                   body = (case JSON_parse P rsp of
                             Some parsed \<Rightarrow> parsed
                           | None \<Rightarrow> JObj [(''raw'', JStr rsp)])\<rparr>)"
  using assms by (simp_all add: postOnce_def split: fetch_result.splits)

lemma postOnce_not_built:
  assumes "build_request P apiUrl formObj authHeader = Inl err"
  shows "postOnce P apiUrl formObj authHeader tr = (Inl (String_error err), tr)"
  using assms by (simp add: postOnce_def)

lemma postOnce_returned:
  assumes "fst (postOnce P apiUrl formObj authHeader tr) = Inr res"
  shows "\<exists>req. build_request P apiUrl formObj authHeader = Inr req"
  using assms by (cases "build_request P apiUrl formObj authHeader") (simp_all add: postOnce_def)

lemma retry_step_failed:
  assumes "of_nat attempt \<le> retries"
    and "\<not> returned_2xx (fst (postOnce P apiUrl formObj authHeader tr))"
  shows "postWithRetry_loop P apiUrl formObj authHeader retries pauseMs attempt lastv tr =
         postWithRetry_loop P apiUrl formObj authHeader retries pauseMs (Suc attempt)
           (Some (kept_as_last (fst (postOnce P apiUrl formObj authHeader tr))))
           (snd (postOnce P apiUrl formObj authHeader tr)
              @ (if of_nat attempt < retries then [Sleep pauseMs] else []))"
proof (cases "postOnce P apiUrl formObj authHeader tr")
  case (Pair r tr1)
  show ?thesis
  proof (cases r)
    case (Inl e)
    with Pair assms(1) show ?thesis
      by (subst postWithRetry_loop.simps) (simp add: kept_as_last_def sleep_def)
  next
    case (Inr res)
    with Pair assms(2) have "\<not> (200 \<le> status res \<and> status res < 300)"
      by (simp add: returned_2xx_def)
    with Pair Inr assms(1) show ?thesis
      by (subst postWithRetry_loop.simps) (auto simp: kept_as_last_def sleep_def)
  qed
qed

lemma retry_step_ok:
  assumes "of_nat attempt \<le> retries"
    and "fst (postOnce P apiUrl formObj authHeader tr) = Inr res"
    and "200 \<le> status res" and "status res < 300"
  shows "postWithRetry_loop P apiUrl formObj authHeader retries pauseMs attempt lastv tr =
         (JObj ([(''ok'', JBool True), (''attempt'', JNum (of_nat attempt))]
                @ outcome_entries res),
          snd (postOnce P apiUrl formObj authHeader tr))"
proof (cases "postOnce P apiUrl formObj authHeader tr")
  case (Pair r tr1)
  with assms show ?thesis
    by (subst postWithRetry_loop.simps) simp
qed

lemma retry_step_over:
  assumes "\<not> of_nat attempt \<le> retries"
  shows "postWithRetry_loop P apiUrl formObj authHeader retries pauseMs attempt lastv tr =
         (JObj ((''ok'', JBool False)
                # (case lastv of None \<Rightarrow> [] | Some res \<Rightarrow> outcome_entries res)), tr)"
  using assms by (subst postWithRetry_loop.simps) simp

lemma failed_attempts_Suc:
  "failed_attempts req pauseMs (Suc k) = [Fetch req, Sleep pauseMs] @ failed_attempts req pauseMs k"
  by (simp add: failed_attempts_def)

lemma failed_attempts_0: "failed_attempts req pauseMs 0 = []"
  by (simp add: failed_attempts_def)

lemma fetches_append: "fetches (xs @ ys) = fetches xs + fetches ys"
  by (simp add: fetches_def)

lemma fetches_failed_attempts: "fetches (failed_attempts req pauseMs k) = k"
  by (induction k) (simp_all add: failed_attempts_Suc failed_attempts_0 fetches_append, simp_all add: fetches_def)

lemma attempt_history_built:
  assumes "build_request P apiUrl formObj authHeader = Inr req"
  shows "attempt_history P apiUrl formObj authHeader pauseMs tr j
         = tr @ failed_attempts req pauseMs j"
  by (induction j arbitrary: tr)
     (simp_all add: failed_attempts_0 failed_attempts_Suc postOnce_built(1) [OF assms])

lemma attempt_history_not_built:
  assumes "build_request P apiUrl formObj authHeader = Inl err"
  shows "attempt_history P apiUrl formObj authHeader pauseMs tr j
         = tr @ replicate j (Sleep pauseMs)"
  by (induction j arbitrary: tr)
     (simp_all add: postOnce_not_built [OF assms] replicate_app_Cons_same)

lemma retry_succeeds_at:
  assumes "of_nat (a + k) \<le> retries"
    and "\<forall>j<k. \<not> returned_2xx
                   (fst (postOnce P apiUrl formObj authHeader
                           (attempt_history P apiUrl formObj authHeader pauseMs tr j)))"
    and "fst (postOnce P apiUrl formObj authHeader
                (attempt_history P apiUrl formObj authHeader pauseMs tr k)) = Inr res"
    and "200 \<le> status res" and "status res < 300"
  shows "postWithRetry_loop P apiUrl formObj authHeader retries pauseMs a lastv tr =
         (JObj ([(''ok'', JBool True), (''attempt'', JNum (of_nat (a + k)))]
                @ outcome_entries res),
          snd (postOnce P apiUrl formObj authHeader
                 (attempt_history P apiUrl formObj authHeader pauseMs tr k)))"
  using assms(1,2,3)
proof (induction k arbitrary: a lastv tr)
  case 0
  then show ?case
    using retry_step_ok [of a retries P apiUrl formObj authHeader tr res pauseMs lastv] assms(4,5)
    by simp
next
  case (Suc k)
  have le: "of_nat a \<le> retries" and lt: "of_nat a < retries"
    using Suc.prems(1) by simp_all
  have f0: "\<not> returned_2xx (fst (postOnce P apiUrl formObj authHeader tr))"
    using Suc.prems(2) [rule_format, of 0] by simp
  have step: "postWithRetry_loop P apiUrl formObj authHeader retries pauseMs a lastv tr =
              postWithRetry_loop P apiUrl formObj authHeader retries pauseMs (Suc a)
                (Some (kept_as_last (fst (postOnce P apiUrl formObj authHeader tr))))
                (snd (postOnce P apiUrl formObj authHeader tr) @ [Sleep pauseMs])"
    using retry_step_failed [OF le f0, of pauseMs lastv] lt by simp
  have p1: "of_nat (Suc a + k) \<le> retries"
    using Suc.prems(1) by simp
  have p2: "\<forall>j<k. \<not> returned_2xx
                   (fst (postOnce P apiUrl formObj authHeader
                           (attempt_history P apiUrl formObj authHeader pauseMs
                              (snd (postOnce P apiUrl formObj authHeader tr) @ [Sleep pauseMs]) j)))"
  proof (intro allI impI)
    fix j assume "j < k"
    then have "Suc j < Suc k" by simp
    from Suc.prems(2) [rule_format, OF this]
    show "\<not> returned_2xx
                   (fst (postOnce P apiUrl formObj authHeader
                           (attempt_history P apiUrl formObj authHeader pauseMs
                              (snd (postOnce P apiUrl formObj authHeader tr) @ [Sleep pauseMs]) j)))"
      by simp
  qed
  have p3: "fst (postOnce P apiUrl formObj authHeader
                (attempt_history P apiUrl formObj authHeader pauseMs
                   (snd (postOnce P apiUrl formObj authHeader tr) @ [Sleep pauseMs]) k)) = Inr res"
    using Suc.prems(3) by simp
  from Suc.IH [OF p1 p2 p3, of "Some (kept_as_last (fst (postOnce P apiUrl formObj authHeader tr)))"]
  show ?case
    unfolding step by simp
qed

lemma retry_exhausted:
  assumes "of_nat (a + m) \<le> retries" and "retries < of_nat (a + m) + 1"
    and "\<forall>j\<le>m. \<not> returned_2xx
                   (fst (postOnce P apiUrl formObj authHeader
                           (attempt_history P apiUrl formObj authHeader pauseMs tr j)))"
  shows "postWithRetry_loop P apiUrl formObj authHeader retries pauseMs a lastv tr =
         (JObj ((''ok'', JBool False)
                # outcome_entries
                    (kept_as_last
                       (fst (postOnce P apiUrl formObj authHeader
                               (attempt_history P apiUrl formObj authHeader pauseMs tr m))))),
          snd (postOnce P apiUrl formObj authHeader
                 (attempt_history P apiUrl formObj authHeader pauseMs tr m))
            @ (if of_nat (a + m) < retries then [Sleep pauseMs] else []))"
  using assms
proof (induction m arbitrary: a lastv tr)
  case 0
  have le: "of_nat a \<le> retries"
    using "0.prems"(1) by simp
  have f0: "\<not> returned_2xx (fst (postOnce P apiUrl formObj authHeader tr))"
    using "0.prems"(3) by simp
  have over: "\<not> of_nat (Suc a) \<le> retries"
    using "0.prems"(2) by simp
  show ?case
    using retry_step_failed [OF le f0, of pauseMs lastv]
    by (simp add: retry_step_over [OF over])
next
  case (Suc m)
  have le: "of_nat a \<le> retries" and lt: "of_nat a < retries"
    using Suc.prems(1) by simp_all
  have f0: "\<not> returned_2xx (fst (postOnce P apiUrl formObj authHeader tr))"
    using Suc.prems(3) [rule_format, of 0] by simp
  have step: "postWithRetry_loop P apiUrl formObj authHeader retries pauseMs a lastv tr =
              postWithRetry_loop P apiUrl formObj authHeader retries pauseMs (Suc a)
                (Some (kept_as_last (fst (postOnce P apiUrl formObj authHeader tr))))
                (snd (postOnce P apiUrl formObj authHeader tr) @ [Sleep pauseMs])"
    using retry_step_failed [OF le f0, of pauseMs lastv] lt by simp
  have p1: "of_nat (Suc a + m) \<le> retries" and p2: "retries < of_nat (Suc a + m) + 1"
    using Suc.prems(1,2) by simp_all
  have p3: "\<forall>j\<le>m. \<not> returned_2xx
                   (fst (postOnce P apiUrl formObj authHeader
                           (attempt_history P apiUrl formObj authHeader pauseMs
                              (snd (postOnce P apiUrl formObj authHeader tr) @ [Sleep pauseMs]) j)))"
  proof (intro allI impI)
    fix j assume "j \<le> m"
    then have "Suc j \<le> Suc m" by simp
    from Suc.prems(3) [rule_format, OF this]
    show "\<not> returned_2xx
                   (fst (postOnce P apiUrl formObj authHeader
                           (attempt_history P apiUrl formObj authHeader pauseMs
                              (snd (postOnce P apiUrl formObj authHeader tr) @ [Sleep pauseMs]) j)))"
      by simp
  qed
  from Suc.IH [OF p1 p2 p3, of "Some (kept_as_last (fst (postOnce P apiUrl formObj authHeader tr)))"]
  show ?case
    unfolding step by simp
qed

text \<open>
  A payload that \<^verbatim>\<open>toFormBody\<close> cannot encode is never sent: every attempt throws before
  \<^verbatim>\<open>fetch\<close> is called, the loop pauses between the attempts, and the result carries
  status 0 and the error.
\<close>

lemma unconvertible_payload_never_sent:
  assumes "build_request P apiUrl formObj authHeader = Inl err"
  shows "postWithRetry P apiUrl formObj authHeader (of_nat n) pauseMs tr
         = (JObj [(''ok'', JBool False), (''status'', JNum 0),
                  (''body'', JObj [(''error'', JStr (String_error err))])],
            tr @ replicate n (Sleep pauseMs))"
proof -
  have fails: "\<forall>j\<le>n. \<not> returned_2xx
                   (fst (postOnce P apiUrl formObj authHeader
                           (attempt_history P apiUrl formObj authHeader pauseMs tr j)))"
    by (simp add: postOnce_not_built [OF assms] returned_2xx_def)
  from retry_exhausted [of 0 n "of_nat n" P apiUrl formObj authHeader pauseMs tr None] fails
  show ?thesis
    by (simp add: postWithRetry_def postOnce_not_built [OF assms]
          attempt_history_not_built [OF assms] kept_as_last_def outcome_entries_def)
qed

text \<open>
  \<^bold>\<open>C3.\<close> Let \<open>retries\<close> be a natural number \<open>n\<close> and let every attempt that the loop
  makes, attempts 0 to \<open>n\<close>, return from \<^verbatim>\<open>postOnce\<close> with a status outside
  [200, 300). Then \<^verbatim>\<open>postWithRetry\<close> calls the downstream exactly \<open>n + 1\<close> times, with
  a pause between two calls and none after the last, and returns
  \<^verbatim>\<open>{ok: false, status, body}\<close> with the status and the body of the last attempt; the
  result has no \<^verbatim>\<open>attempt\<close> property.
\<close>

theorem retries_exhausted_on_non_2xx:
  assumes "\<forall>j\<le>n. \<exists>res.
             fst (postOnce P apiUrl formObj authHeader
                    (attempt_history P apiUrl formObj authHeader pauseMs tr j)) = Inr res
             \<and> \<not> (200 \<le> status res \<and> status res < 300)"
  shows "\<exists>res req.
           fst (postOnce P apiUrl formObj authHeader
                  (attempt_history P apiUrl formObj authHeader pauseMs tr n)) = Inr res
         \<and> build_request P apiUrl formObj authHeader = Inr req
         \<and> postWithRetry P apiUrl formObj authHeader (of_nat n) pauseMs tr
             = (JObj [(''ok'', JBool False), (''status'', JNum (of_nat (status res))),
                      (''body'', body res)],
                tr @ failed_attempts req pauseMs n @ [Fetch req])
         \<and> fetches (snd (postWithRetry P apiUrl formObj authHeader (of_nat n) pauseMs tr))
             = fetches tr + (n + 1)
         \<and> get_prop (fst (postWithRetry P apiUrl formObj authHeader (of_nat n) pauseMs tr))
             ''attempt'' = JUndefined"
proof -
  from assms obtain res where
    last: "fst (postOnce P apiUrl formObj authHeader
                  (attempt_history P apiUrl formObj authHeader pauseMs tr n)) = Inr res"
    by blast
  from postOnce_returned [OF last] obtain req where
    req: "build_request P apiUrl formObj authHeader = Inr req"
    by blast
  have fails: "\<forall>j\<le>n. \<not> returned_2xx
                   (fst (postOnce P apiUrl formObj authHeader
                           (attempt_history P apiUrl formObj authHeader pauseMs tr j)))"
  proof (intro allI impI)
    fix j assume "j \<le> n"
    with assms obtain r where
      "fst (postOnce P apiUrl formObj authHeader
              (attempt_history P apiUrl formObj authHeader pauseMs tr j)) = Inr r"
      "\<not> (200 \<le> status r \<and> status r < 300)"
      by blast
    then show "\<not> returned_2xx
                   (fst (postOnce P apiUrl formObj authHeader
                           (attempt_history P apiUrl formObj authHeader pauseMs tr j)))"
      by (simp add: returned_2xx_def)
  qed
  have run: "postWithRetry P apiUrl formObj authHeader (of_nat n) pauseMs tr
             = (JObj [(''ok'', JBool False), (''status'', JNum (of_nat (status res))),
                      (''body'', body res)],
                tr @ failed_attempts req pauseMs n @ [Fetch req])"
    using retry_exhausted [of 0 n "of_nat n" P apiUrl formObj authHeader pauseMs tr None]
      fails last
    by (simp add: postWithRetry_def outcome_entries_def kept_as_last_def
          postOnce_built(1) [OF req] attempt_history_built [OF req])
  have count: "fetches (tr @ failed_attempts req pauseMs n @ [Fetch req]) = fetches tr + (n + 1)"
    by (simp add: fetches_append fetches_failed_attempts) (simp add: fetches_def)
  show ?thesis
    using last req run count by simp
qed

theorem retries_exhausted_on_non_2xx_witness:
  "postWithRetry (mock_platform (always_status 503)) ''u'' (JObj [(''receipt_phone'', JStr ''A'')])
     ''Token t'' 2 500 []
     = (JObj [(''ok'', JBool False), (''status'', JNum 503),
              (''body'', JObj [(''raw'', JStr ''down'')])],
        [Fetch \<lparr>url = ''u'',
                headers = [(''Content-Type'', ''application/x-www-form-urlencoded''),
                           (''Authorization'', ''Token t'')],
                form = [(''receipt_phone'', ''A'')]\<rparr>,
         Sleep 500,
         Fetch \<lparr>url = ''u'',
                headers = [(''Content-Type'', ''application/x-www-form-urlencoded''),
                           (''Authorization'', ''Token t'')],
                form = [(''receipt_phone'', ''A'')]\<rparr>,
         Sleep 500,
         Fetch \<lparr>url = ''u'',
                headers = [(''Content-Type'', ''application/x-www-form-urlencoded''),
                           (''Authorization'', ''Token t'')],
                form = [(''receipt_phone'', ''A'')]\<rparr>])
   \<and> fetches (snd (postWithRetry (mock_platform (always_status 503)) ''u''
                     (JObj [(''receipt_phone'', JStr ''A'')]) ''Token t'' 2 500 [])) = 3"
proof -
  let ?P = "mock_platform (always_status 503)"
  let ?req = "\<lparr>url = ''u'',
                headers = [(''Content-Type'', ''application/x-www-form-urlencoded''),
                           (''Authorization'', ''Token t'')],
                form = [(''receipt_phone'', ''A'')]\<rparr>"
  have b: "build_request ?P ''u'' (JObj [(''receipt_phone'', JStr ''A'')]) ''Token t'' = Inr ?req"
    by (simp add: build_request_def toFormBody_def js_or_def own_keys_order_def
          is_array_index_def is_digit_def)
  have r: "\<And>h. fst (postOnce ?P ''u'' (JObj [(''receipt_phone'', JStr ''A'')]) ''Token t'' h)
             = Inr \<lparr>status = 503, body = JObj [(''raw'', JStr ''down'')]\<rparr>"
    unfolding postOnce_built(2) [OF b]
    by (simp add: mock_platform_def always_status_def)
  have h: "\<forall>j\<le>2. \<exists>res.
             fst (postOnce ?P ''u'' (JObj [(''receipt_phone'', JStr ''A'')]) ''Token t''
                    (attempt_history ?P ''u'' (JObj [(''receipt_phone'', JStr ''A'')]) ''Token t''
                       500 [] j)) = Inr res
             \<and> \<not> (200 \<le> status res \<and> status res < 300)"
    by (simp add: r)
  from retries_exhausted_on_non_2xx [OF h] b r
  show ?thesis
    by (simp add: failed_attempts_def numeral_2_eq_2 fetches_def)
qed

text \<open>
  \<^bold>\<open>C4.\<close> Let attempt \<open>k\<close> (from 0, \<open>k \<le> retries\<close>) be the first that returns from
  \<^verbatim>\<open>postOnce\<close> with a status in [200, 300), the earlier ones having thrown or returned
  another status. Then \<^verbatim>\<open>postWithRetry\<close> returns
  \<^verbatim>\<open>{ok: true, attempt: k, status, body}\<close> of that attempt right after it: the trace ends
  with the call of attempt \<open>k\<close>, and \<open>k + 1\<close> calls were made. An attempt that throws does
  not leave the loop: it is kept as \<^verbatim>\<open>{status: 0, body: {error: String(e)}}\<close> in
  \<^verbatim>\<open>last\<close>, and the loop goes on with the next attempt, after the pause when attempts
  remain.
\<close>

theorem first_2xx_attempt_returns:
  assumes "of_nat k \<le> retries"
    and "\<forall>j<k. \<not> returned_2xx
                   (fst (postOnce P apiUrl formObj authHeader
                           (attempt_history P apiUrl formObj authHeader pauseMs tr j)))"
    and "fst (postOnce P apiUrl formObj authHeader
                (attempt_history P apiUrl formObj authHeader pauseMs tr k)) = Inr res"
    and "200 \<le> status res" and "status res < 300"
  shows "(\<exists>req. build_request P apiUrl formObj authHeader = Inr req
            \<and> postWithRetry P apiUrl formObj authHeader retries pauseMs tr
                = (JObj [(''ok'', JBool True), (''attempt'', JNum (of_nat k)),
                         (''status'', JNum (of_nat (status res))), (''body'', body res)],
                   tr @ failed_attempts req pauseMs k @ [Fetch req]))
       \<and> fetches (snd (postWithRetry P apiUrl formObj authHeader retries pauseMs tr))
           = fetches tr + (k + 1)
       \<and> (\<forall>a h e lastv.
            of_nat a \<le> retries \<and> fst (postOnce P apiUrl formObj authHeader h) = Inl e \<longrightarrow>
            postWithRetry_loop P apiUrl formObj authHeader retries pauseMs a lastv h =
            postWithRetry_loop P apiUrl formObj authHeader retries pauseMs (Suc a)
              (Some \<lparr>status = 0, body = JObj [(''error'', JStr e)]\<rparr>)
              (snd (postOnce P apiUrl formObj authHeader h)
                 @ (if of_nat a < retries then [Sleep pauseMs] else [])))"
proof (intro conjI allI impI)
  from postOnce_returned [OF assms(3)] obtain req where
    req: "build_request P apiUrl formObj authHeader = Inr req"
    by blast
  have le: "of_nat (0 + k) \<le> retries"
    using assms(1) by simp
  from retry_succeeds_at [OF le assms(2,3,4,5), of None]
  have run: "postWithRetry P apiUrl formObj authHeader retries pauseMs tr
                = (JObj [(''ok'', JBool True), (''attempt'', JNum (of_nat k)),
                         (''status'', JNum (of_nat (status res))), (''body'', body res)],
                   tr @ failed_attempts req pauseMs k @ [Fetch req])"
    by (simp add: postWithRetry_def outcome_entries_def postOnce_built(1) [OF req]
          attempt_history_built [OF req])
  with req show "\<exists>req. build_request P apiUrl formObj authHeader = Inr req
            \<and> postWithRetry P apiUrl formObj authHeader retries pauseMs tr
                = (JObj [(''ok'', JBool True), (''attempt'', JNum (of_nat k)),
                         (''status'', JNum (of_nat (status res))), (''body'', body res)],
                   tr @ failed_attempts req pauseMs k @ [Fetch req])"
    by blast
  show "fetches (snd (postWithRetry P apiUrl formObj authHeader retries pauseMs tr))
           = fetches tr + (k + 1)"
    unfolding run
    by (simp add: fetches_append fetches_failed_attempts) (simp add: fetches_def)
next
  fix a h e lastv
  assume h: "of_nat a \<le> retries \<and> fst (postOnce P apiUrl formObj authHeader h) = Inl e"
  then have "\<not> returned_2xx (fst (postOnce P apiUrl formObj authHeader h))"
    by (simp add: returned_2xx_def)
  from retry_step_failed [OF _ this, of a retries pauseMs lastv] h
  show "postWithRetry_loop P apiUrl formObj authHeader retries pauseMs a lastv h =
            postWithRetry_loop P apiUrl formObj authHeader retries pauseMs (Suc a)
              (Some \<lparr>status = 0, body = JObj [(''error'', JStr e)]\<rparr>)
              (snd (postOnce P apiUrl formObj authHeader h)
                 @ (if of_nat a < retries then [Sleep pauseMs] else []))"
    by (simp add: kept_as_last_def)
qed

theorem first_2xx_attempt_returns_witness:
  "postWithRetry (mock_platform (fail_then_ok 2)) ''u'' (JObj [(''receipt_phone'', JStr ''A'')])
     ''Token t'' 2 500 []
     = (JObj [(''ok'', JBool True), (''attempt'', JNum 2), (''status'', JNum 200),
              (''body'', JObj [(''raw'', JStr ''sent'')])],
        [Fetch \<lparr>url = ''u'',
                headers = [(''Content-Type'', ''application/x-www-form-urlencoded''),
                           (''Authorization'', ''Token t'')],
                form = [(''receipt_phone'', ''A'')]\<rparr>,
         Sleep 500,
         Fetch \<lparr>url = ''u'',
                headers = [(''Content-Type'', ''application/x-www-form-urlencoded''),
                           (''Authorization'', ''Token t'')],
                form = [(''receipt_phone'', ''A'')]\<rparr>,
         Sleep 500,
         Fetch \<lparr>url = ''u'',
                headers = [(''Content-Type'', ''application/x-www-form-urlencoded''),
                           (''Authorization'', ''Token t'')],
                form = [(''receipt_phone'', ''A'')]\<rparr>])"
proof -
  let ?P = "mock_platform (fail_then_ok 2)"
  let ?req = "\<lparr>url = ''u'',
                headers = [(''Content-Type'', ''application/x-www-form-urlencoded''),
                           (''Authorization'', ''Token t'')],
                form = [(''receipt_phone'', ''A'')]\<rparr>"
  have b: "build_request ?P ''u'' (JObj [(''receipt_phone'', JStr ''A'')]) ''Token t'' = Inr ?req"
    by (simp add: build_request_def toFormBody_def js_or_def own_keys_order_def
          is_array_index_def is_digit_def)
  have le: "of_nat 2 \<le> (2::rat)"
    by simp
  have fails: "\<forall>j<2. \<not> returned_2xx
                 (fst (postOnce ?P ''u'' (JObj [(''receipt_phone'', JStr ''A'')]) ''Token t''
                         (attempt_history ?P ''u'' (JObj [(''receipt_phone'', JStr ''A'')])
                            ''Token t'' 500 [] j)))"
    unfolding postOnce_built(2) [OF b] attempt_history_built [OF b]
    by (simp add: mock_platform_def fail_then_ok_def fetches_failed_attempts returned_2xx_def)
  have ok: "fst (postOnce ?P ''u'' (JObj [(''receipt_phone'', JStr ''A'')]) ''Token t''
                   (attempt_history ?P ''u'' (JObj [(''receipt_phone'', JStr ''A'')])
                      ''Token t'' 500 [] 2))
            = Inr \<lparr>status = 200, body = JObj [(''raw'', JStr ''sent'')]\<rparr>"
    unfolding postOnce_built(2) [OF b] attempt_history_built [OF b]
    by (simp add: mock_platform_def fail_then_ok_def fetches_failed_attempts)
  from first_2xx_attempt_returns [OF le fails ok] b
  show ?thesis
    by (simp add: failed_attempts_def numeral_2_eq_2)
qed

section \<open>Resolution of the authentication\<close>

lemma trim_Nil: "trim [] = []"
  by (simp add: trim_def)

lemma header_auth_simps:
  "header_auth None = []" "header_auth (Some s) = trim s"
  by (simp_all add: header_auth_def trim_Nil)

text \<open>
  \<^bold>\<open>C6, as the code has it.\<close> The authentication is the \<^verbatim>\<open>Authorization\<close> header,
  trimmed, when that is present and not blank. Otherwise it is the body's \<^verbatim>\<open>authHeader\<close>,
  trimmed, when that is a string and not blank, and the process default when the body's
  \<^verbatim>\<open>authHeader\<close> is absent, falsy or a blank string. A truthy \<^verbatim>\<open>authHeader\<close> that is
  not a string has no \<^verbatim>\<open>trim\<close>: the handler answers 500, and nothing is sent. When all
  three sources are empty, the handler stops before any downstream call: with 400 when the
  body's \<^verbatim>\<open>apiUrl\<close> is absent, falsy or a string, and with 500 when it is a truthy value
  that is not a string, since the line that trims it comes first.
\<close>

theorem auth_resolution_order:
  "(\<forall>h. authorization req = Some h \<and> trim h \<noteq> [] \<longrightarrow> resolve_auth cfg req = Inr (trim h))
   \<and> ((authorization req = None \<or> (\<exists>h. authorization req = Some h \<and> trim h = [])) \<longrightarrow>
        (\<forall>s. get_prop (req_body req) ''authHeader'' = JStr s \<and> trim s \<noteq> [] \<longrightarrow>
             resolve_auth cfg req = Inr (trim s))
      \<and> (\<not> truthy (get_prop (req_body req) ''authHeader'')
          \<or> (\<exists>s. get_prop (req_body req) ''authHeader'' = JStr s \<and> trim s = []) \<longrightarrow>
            resolve_auth cfg req = Inr (DEFAULT_AUTH_HEADER cfg)
          \<and> (DEFAULT_AUTH_HEADER cfg = [] \<longrightarrow>
               snd (send_bulk P cfg req tr) = tr
             \<and> (\<not> truthy (get_prop (req_body req) ''apiUrl'')
                 \<or> (\<exists>u. get_prop (req_body req) ''apiUrl'' = JStr u) \<longrightarrow>
                   fst (send_bulk P cfg req tr)
                     = bad_request
                         ''Missing auth (send 'Authorization' header or 'authHeader' in body)''
                   \<and> code (fst (send_bulk P cfg req tr)) = 400)
             \<and> (truthy (get_prop (req_body req) ''apiUrl'')
                 \<and> (\<forall>u. get_prop (req_body req) ''apiUrl'' \<noteq> JStr u) \<longrightarrow>
                   code (fst (send_bulk P cfg req tr)) = 500)))
      \<and> (truthy (get_prop (req_body req) ''authHeader'')
          \<and> (\<forall>s. get_prop (req_body req) ''authHeader'' \<noteq> JStr s) \<longrightarrow>
            resolve_auth cfg req = Inl (TypeError ''req.body.authHeader.trim is not a function'')
          \<and> snd (send_bulk P cfg req tr) = tr
          \<and> code (fst (send_bulk P cfg req tr)) = 500))"
proof (intro conjI allI impI)
  fix h
  assume "authorization req = Some h \<and> trim h \<noteq> []"
  then show "resolve_auth cfg req = Inr (trim h)"
    by (auto simp: resolve_auth_def header_auth_simps trim_Nil)
next
  fix s
  assume hb: "authorization req = None \<or> (\<exists>h. authorization req = Some h \<and> trim h = [])"
    and "get_prop (req_body req) ''authHeader'' = JStr s \<and> trim s \<noteq> []"
  then show "resolve_auth cfg req = Inr (trim s)"
    by (auto simp: resolve_auth_def header_auth_simps body_auth_def trim_Nil)
next
  assume hb: "authorization req = None \<or> (\<exists>h. authorization req = Some h \<and> trim h = [])"
    and bb: "\<not> truthy (get_prop (req_body req) ''authHeader'')
          \<or> (\<exists>s. get_prop (req_body req) ''authHeader'' = JStr s \<and> trim s = [])"
  then show d: "resolve_auth cfg req = Inr (DEFAULT_AUTH_HEADER cfg)"
    by (auto simp: resolve_auth_def header_auth_simps body_auth_def trim_Nil)
  assume e: "DEFAULT_AUTH_HEADER cfg = []"
  show "snd (send_bulk P cfg req tr) = tr"
    using d e by (simp add: send_bulk_def split: sum.splits)
  {
    assume "\<not> truthy (get_prop (req_body req) ''apiUrl'')
            \<or> (\<exists>u. get_prop (req_body req) ''apiUrl'' = JStr u)"
    from resolve_apiUrl_resolves [OF this] obtain apiUrl where
      "resolve_apiUrl cfg (req_body req) = Inr apiUrl"
      by blast
    then show m: "fst (send_bulk P cfg req tr)
                     = bad_request
                         ''Missing auth (send 'Authorization' header or 'authHeader' in body)''"
      using d e by (simp add: send_bulk_def)
    show "code (fst (send_bulk P cfg req tr)) = 400"
      unfolding m by (simp add: bad_request_def)
  }
  {
    assume "truthy (get_prop (req_body req) ''apiUrl'')
            \<and> (\<forall>u. get_prop (req_body req) ''apiUrl'' \<noteq> JStr u)"
    then have "resolve_apiUrl cfg (req_body req)
         = Inl (TypeError ''(req.body?.apiUrl || DEFAULT_API_URL).trim is not a function'')"
      using resolve_apiUrl_throws by blast
    then show "code (fst (send_bulk P cfg req tr)) = 500"
      by (simp add: send_bulk_def internal_error_def)
  }
next
  assume hb: "authorization req = None \<or> (\<exists>h. authorization req = Some h \<and> trim h = [])"
    and nb: "truthy (get_prop (req_body req) ''authHeader'')
          \<and> (\<forall>s. get_prop (req_body req) ''authHeader'' \<noteq> JStr s)"
  then show t: "resolve_auth cfg req = Inl (TypeError ''req.body.authHeader.trim is not a function'')"
    by (cases "get_prop (req_body req) ''authHeader''")
       (auto simp: resolve_auth_def header_auth_simps body_auth_def trim_Nil)
  show "snd (send_bulk P cfg req tr) = tr"
    using t by (simp add: send_bulk_def split: sum.splits)
  show "code (fst (send_bulk P cfg req tr)) = 500"
    using t by (simp add: send_bulk_def internal_error_def split: sum.splits)
qed

theorem auth_resolution_order_witness:
  "resolve_auth mock_config
     \<lparr>authorization = Some '' Token h '',
      req_body = JObj [(''authHeader'', JStr ''Token b'')]\<rparr> = Inr ''Token h''
   \<and> resolve_auth mock_config
     \<lparr>authorization = Some '' '',
      req_body = JObj [(''authHeader'', JStr ''Token b '')]\<rparr> = Inr ''Token b''
   \<and> resolve_auth (mock_config\<lparr>DEFAULT_AUTH_HEADER := ''Token d''\<rparr>)
     \<lparr>authorization = None, req_body = JObj [(''authHeader'', JStr '' '')]\<rparr> = Inr ''Token d''
   \<and> send_bulk (mock_platform (always_status 200)) mock_config
     \<lparr>authorization = None,
      req_body = JObj [(''recipients'', JArr [JObj [(''phone'', JStr ''A'')]])]\<rparr> []
     = (bad_request ''Missing auth (send 'Authorization' header or 'authHeader' in body)'', [])
   \<and> code (fst (send_bulk (mock_platform (always_status 200)) mock_config
                \<lparr>authorization = None, req_body = JObj [(''apiUrl'', JArr [])]\<rparr> [])) = 500
   \<and> code (fst (send_bulk (mock_platform (always_status 200)) mock_config
                \<lparr>authorization = Some '' '',
                 req_body = JObj [(''authHeader'', JBool True)]\<rparr> [])) = 500"
  using auth_resolution_order
          [of "\<lparr>authorization = Some '' Token h '',
                req_body = JObj [(''authHeader'', JStr ''Token b'')]\<rparr>"
              mock_config "mock_platform (always_status 200)" "[]"]
        auth_resolution_order
          [of "\<lparr>authorization = Some '' '',
                req_body = JObj [(''authHeader'', JStr ''Token b '')]\<rparr>"
              mock_config "mock_platform (always_status 200)" "[]"]
        auth_resolution_order
          [of "\<lparr>authorization = None, req_body = JObj [(''authHeader'', JStr '' '')]\<rparr>"
              "mock_config\<lparr>DEFAULT_AUTH_HEADER := ''Token d''\<rparr>"
              "mock_platform (always_status 200)" "[]"]
        auth_resolution_order
          [of "\<lparr>authorization = None,
                req_body = JObj [(''recipients'', JArr [JObj [(''phone'', JStr ''A'')]])]\<rparr>"
              mock_config "mock_platform (always_status 200)" "[]"]
        auth_resolution_order
          [of "\<lparr>authorization = None, req_body = JObj [(''apiUrl'', JArr [])]\<rparr>"
              mock_config "mock_platform (always_status 200)" "[]"]
        auth_resolution_order
          [of "\<lparr>authorization = Some '' '', req_body = JObj [(''authHeader'', JBool True)]\<rparr>"
              mock_config "mock_platform (always_status 200)" "[]"]
  by (simp add: trim_def is_space_def mock_config_def prod_eq_iff)

text \<open>
  The claim as stated has every request without authentication answered with 400, and an
  authentication resolved for every other request. A request without authentication whose
  \<^verbatim>\<open>apiUrl\<close> is the number 5 is answered with 500, and so is a request whose only
  authentication is the number 5 as \<^verbatim>\<open>authHeader\<close>, although a default is configured.
\<close>

theorem auth_resolution_counterexample:
  "code (fst (send_bulk (mock_platform (always_status 200)) mock_config
                \<lparr>authorization = None, req_body = JObj [(''apiUrl'', JNum 5)]\<rparr> [])) = 500
   \<and> code (fst (send_bulk (mock_platform (always_status 200))
                (mock_config\<lparr>DEFAULT_AUTH_HEADER := ''Token d''\<rparr>)
                \<lparr>authorization = None,
                 req_body = JObj [(''authHeader'', JNum 5),
                                  (''recipients'', JArr [JObj [(''phone'', JStr ''A'')]])]\<rparr>
                [])) = 500"
  by (simp add: send_bulk_def resolve_apiUrl_def resolve_auth_def header_auth_def body_auth_def
        js_or_def mock_config_def internal_error_def trim_def is_space_def)

end
